theory Spec2Isabelle
  imports Complex_Main
begin

unbundle bit_operations_syntax

section \<open>Raster images\<close>

text \<open>
  The script \<^verbatim>\<open>main.py\<close> builds its composite out of image operations of the Earth
  Engine client (\<^verbatim>\<open>select\<close>, \<^verbatim>\<open>bitwiseAnd\<close>, \<^verbatim>\<open>eq\<close>, \<^verbatim>\<open>And\<close>, \<^verbatim>\<open>updateMask\<close>,
  \<^verbatim>\<open>divide\<close>). An image is an ordered list of named bands; a band gives, at every pixel
  position, a value and a validity flag (the mask). Sentinel-2 digital numbers and the
  QA60 flags are integers; the rescaled reflectances are modelled as exact reals, so the
  rounding of the platform's floating-point numbers is not part of the model.
\<close>

record 'a pixel =
  val :: 'a
  valid :: bool

type_synonym ('p, 'a) band = "'p \<Rightarrow> 'a pixel"

type_synonym ('p, 'a) image = "(string \<times> ('p, 'a) band) list"

datatype error = MissingBand string

subsection \<open>The image operations the script calls\<close>

text \<open>\<^verbatim>\<open>image.select('QA60')\<close>: the band of that name; an error when the image has none.\<close>

definition ee_select1 :: "('p, 'a) image \<Rightarrow> string \<Rightarrow> error + ('p, 'a) band" where
  "ee_select1 img name =
     (case map_of img name of None \<Rightarrow> Inl (MissingBand name) | Some b \<Rightarrow> Inr b)"

text \<open>\<^verbatim>\<open>band.bitwiseAnd(c)\<close> and \<^verbatim>\<open>band.eq(c)\<close> with a constant: the value changes, the
  mask does not. \<^verbatim>\<open>eq\<close> answers 1 or 0.\<close>

definition ee_bitwiseAnd :: "('p, int) band \<Rightarrow> int \<Rightarrow> ('p, int) band" where
  "ee_bitwiseAnd b c = (\<lambda>p. (b p)\<lparr>val := val (b p) AND c\<rparr>)"

definition ee_eq :: "('p, int) band \<Rightarrow> int \<Rightarrow> ('p, int) band" where
  "ee_eq b c = (\<lambda>p. (b p)\<lparr>val := (if val (b p) = c then 1 else 0)\<rparr>)"

text \<open>\<^verbatim>\<open>a.And(b)\<close>: 1 where both values are non-zero, else 0; valid where both are.\<close>

definition ee_And :: "('p, int) band \<Rightarrow> ('p, int) band \<Rightarrow> ('p, int) band" where
  "ee_And a b =
     (\<lambda>p. \<lparr>val = (if val (a p) \<noteq> 0 \<and> val (b p) \<noteq> 0 then 1 else 0),
           valid = (valid (a p) \<and> valid (b p))\<rparr>)"

text \<open>\<^verbatim>\<open>image.updateMask(mask)\<close> with a one-band mask: in every band, a pixel stays valid
  only where it was valid and the mask is valid and non-zero. Values are kept.\<close>

definition ee_updateMask :: "('p, 'a) image \<Rightarrow> ('p, int) band \<Rightarrow> ('p, 'a) image" where
  "ee_updateMask img m =
     map (\<lambda>(name, b). (name, \<lambda>p. (b p)\<lparr>valid := (valid (b p) \<and> valid (m p) \<and> val (m p) \<noteq> 0)\<rparr>))
       img"

text \<open>\<^verbatim>\<open>image.divide(c)\<close> with a constant: every band, every pixel; the platform answers
  0 for a division by 0. The mask is that of the image.\<close>

definition ee_divide :: "('p, int) image \<Rightarrow> int \<Rightarrow> ('p, real) image" where
  "ee_divide img c =
     map (\<lambda>(name, b). (name, \<lambda>p. \<lparr>val = (if c = 0 then 0 else real_of_int (val (b p)) / real_of_int c),
                                 valid = valid (b p)\<rparr>))
       img"

text \<open>\<^verbatim>\<open>image.select(names)\<close>: the named bands in the order asked for; an error at the
  first name the image lacks.\<close>

fun ee_select :: "('p, 'a) image \<Rightarrow> string list \<Rightarrow> error + ('p, 'a) image" where
  "ee_select img [] = Inr []"
| "ee_select img (name # names) =
     (case ee_select1 img name of
        Inl e \<Rightarrow> Inl e
      | Inr b \<Rightarrow> (case ee_select img names of
                    Inl e \<Rightarrow> Inl e
                  | Inr bs \<Rightarrow> Inr ((name, b) # bs)))"

section \<open>Cloud masking: \<^verbatim>\<open>maskS2clouds\<close>\<close>

definition cloudBitMask :: int where
  "cloudBitMask = push_bit 10 1"

definition cirrusBitMask :: int where
  "cirrusBitMask = push_bit 11 1"

text \<open>The local \<^verbatim>\<open>mask\<close> of \<^verbatim>\<open>maskS2clouds\<close>, as a function of the band \<^verbatim>\<open>qa\<close>.\<close>

definition mask_band :: "('p, int) band \<Rightarrow> ('p, int) band" where
  "mask_band qa = ee_And (ee_eq (ee_bitwiseAnd qa cloudBitMask) 0)
                         (ee_eq (ee_bitwiseAnd qa cirrusBitMask) 0)"

definition maskS2clouds :: "('p, int) image \<Rightarrow> error + ('p, real) image" where
  "maskS2clouds img =
     (case ee_select1 img ''QA60'' of
        Inl e \<Rightarrow> Inl e
      | Inr qa \<Rightarrow> Inr (ee_divide (ee_updateMask img (mask_band qa)) 10000))"

text \<open>Whether \<^verbatim>\<open>updateMask(mask)\<close> keeps a pixel whose quality value is \<open>q\<close>: the mask
  computed from a valid quality pixel of value \<open>q\<close> is non-zero there.\<close>

definition mask_keeps :: "int \<Rightarrow> bool" where
  "mask_keeps q = (val (mask_band (\<lambda>_ :: unit. \<lparr>val = q, valid = True\<rparr>) ()) \<noteq> 0)"

text \<open>The band list of the script, and what lines 68 and 73 do to one image of the
  collection: \<^verbatim>\<open>.map(maskS2clouds)\<close>, then \<^verbatim>\<open>.select(bands)\<close>.\<close>

definition bands :: "string list" where
  "bands = [''B4'', ''B3'', ''B2'', ''B8'']"

definition s2_image :: "('p, int) image \<Rightarrow> error + ('p, real) image" where
  "s2_image img =
     (case maskS2clouds img of
        Inl e \<Rightarrow> Inl e
      | Inr masked \<Rightarrow> ee_select masked bands)"

section \<open>The script as a program over the platform's answers\<close>

text \<open>
  The script talks to the platform through \<^verbatim>\<open>ee.Initialize\<close>, \<^verbatim>\<open>ee.Authenticate\<close>,
  \<^verbatim>\<open>export_task.start\<close>, \<^verbatim>\<open>export_task.active\<close> and \<^verbatim>\<open>export_task.status\<close>. Each of
  them returns or raises; the platform is a record of these answers, the repeated calls
  indexed by how many calls of the same kind came before. The script's run is the list
  of its observable events and the way it ends. Calls that only build a request on the
  client (geometries, filters, the export description) are not events.
\<close>

datatype exn = EEException | KeyError string | OtherException string

type_synonym status_dict = "string \<rightharpoonup> string"

record platform =
  Initialize :: "nat \<Rightarrow> exn option"
  Authenticate :: "exn option"
  start :: "exn option"
  task_id :: string
  active :: "nat \<Rightarrow> exn + bool"
  status :: "nat \<Rightarrow> exn + status_dict"

datatype event =
    CallInitialize
  | CallAuthenticate
  | CallStart
  | CallActive
  | CallStatus
  | Print string
  | Sleep nat

datatype outcome = Exit | Uncaught exn

definition BUCKET_NAME :: string where
  "BUCKET_NAME = ''valkyrion-satellite-data''"

definition FILENAME :: string where
  "FILENAME = ''bucharest-sentinel2''"

text \<open>Lines 7 to 14: the events, and the exception that leaves the block, if any.\<close>

definition authenticate_and_initialize :: "platform \<Rightarrow> event list \<times> exn option" where
  "authenticate_and_initialize ee =
     (case Initialize ee 0 of
        None \<Rightarrow>
          ([CallInitialize, Print ''Google Earth Engine initialized successfully.''], None)
      | Some EEException \<Rightarrow>
          (case Authenticate ee of
             Some e \<Rightarrow>
               ([CallInitialize, Print ''Authentication needed. Running ee.Authenticate()...'',
                 CallAuthenticate], Some e)
           | None \<Rightarrow>
               (case Initialize ee 1 of
                  Some e \<Rightarrow>
                    ([CallInitialize,
                      Print ''Authentication needed. Running ee.Authenticate()...'',
                      CallAuthenticate, CallInitialize], Some e)
                | None \<Rightarrow>
                    ([CallInitialize,
                      Print ''Authentication needed. Running ee.Authenticate()...'',
                      CallAuthenticate, CallInitialize,
                      Print ''Google Earth Engine initialized successfully after authentication.''],
                     None)))
      | Some e \<Rightarrow> ([CallInitialize], Some e))"

text \<open>Lines 110 to 113, the loop \<^verbatim>\<open>while export_task.active()\<close>: \<open>k\<close> counts the
  iterations done, \<open>tr\<close> is the trace so far. The loop may run forever; it returns the
  trace and either the exception that left it or the number of iterations at its exit.\<close>

partial_function (option) monitor ::
    "platform \<Rightarrow> nat \<Rightarrow> event list \<Rightarrow> (event list \<times> (exn + nat)) option" where
  "monitor ee k tr =
     (case active ee k of
        Inl e \<Rightarrow> Some (tr @ [CallActive], Inl e)
      | Inr a \<Rightarrow>
          if a then
            (case status ee k of
               Inl e \<Rightarrow> Some (tr @ [CallActive, CallStatus], Inl e)
             | Inr st \<Rightarrow>
                 (case st ''state'' of
                    None \<Rightarrow> Some (tr @ [CallActive, CallStatus], Inl (KeyError ''state''))
                  | Some s \<Rightarrow>
                      monitor ee (Suc k)
                        (tr @ [CallActive, CallStatus, Print (''Task status: '' @ s), Sleep 10])))
          else Some (tr @ [CallActive], Inr k))"

text \<open>Lines 117 to 124: the report of the final status.\<close>

definition report :: "status_dict \<Rightarrow> event list \<times> exn option" where
  "report final_status =
     (case final_status ''state'' of
        None \<Rightarrow> ([], Some (KeyError ''state''))
      | Some s \<Rightarrow>
          if s = ''COMPLETED'' then
            ([Print ''Export COMPLETED successfully!'',
              Print (''File should be in: gs://'' @ BUCKET_NAME @ ''/'' @ FILENAME @ ''.tif'')],
             None)
          else if s = ''FAILED'' then
            (case final_status ''error_message'' of
               None \<Rightarrow> ([Print ''Export FAILED.''], Some (KeyError ''error_message''))
             | Some m \<Rightarrow> ([Print ''Export FAILED.'', Print (''Error message: '' @ m)], None))
          else ([Print (''Task finished with state: '' @ s)], None))"

text \<open>The whole script. \<open>None\<close>: it never ends.\<close>

definition main :: "platform \<Rightarrow> (event list \<times> outcome) option" where
  "main ee =
     (case authenticate_and_initialize ee of
        (t1, Some e) \<Rightarrow> Some (t1, Uncaught e)
      | (t1, None) \<Rightarrow>
          (case start ee of
             Some e \<Rightarrow>
               Some (t1 @ [Print ''Image collection filtered and median composite created.'',
                           CallStart], Uncaught e)
           | None \<Rightarrow>
               (case monitor ee 0
                       (t1 @ [Print ''Image collection filtered and median composite created.'',
                              CallStart, Print (''Monitoring task: '' @ task_id ee)]) of
                  None \<Rightarrow> None
                | Some (t2, Inl e) \<Rightarrow> Some (t2, Uncaught e)
                | Some (t2, Inr n) \<Rightarrow>
                    (case status ee n of
                       Inl e \<Rightarrow> Some (t2 @ [CallStatus], Uncaught e)
                     | Inr final_status \<Rightarrow>
                         (case report final_status of
                            (t3, Some e) \<Rightarrow> Some (t2 @ [CallStatus] @ t3, Uncaught e)
                          | (t3, None) \<Rightarrow> Some (t2 @ [CallStatus] @ t3, Exit))))))"

section \<open>Describing runs\<close>

text \<open>What the \<open>k\<close>-th call of \<^verbatim>\<open>status()\<close> gives under the key \<^verbatim>\<open>'state'\<close>, if the call
  returns and the key is there.\<close>

definition state_at :: "platform \<Rightarrow> nat \<Rightarrow> string option" where
  "state_at ee k = (case status ee k of Inl e \<Rightarrow> None | Inr st \<Rightarrow> st ''state'')"

text \<open>The \<open>k\<close>-th test of the loop finds the job active and the body can print its
  state.\<close>

definition still_running :: "platform \<Rightarrow> nat \<Rightarrow> bool" where
  "still_running ee k \<longleftrightarrow> active ee k = Inr True \<and> state_at ee k \<noteq> None"

text \<open>The events of the \<open>k\<close>-th iteration of the loop.\<close>

definition iteration :: "platform \<Rightarrow> nat \<Rightarrow> event list" where
  "iteration ee k =
     [CallActive, CallStatus,
      Print (''Task status: '' @ (case state_at ee k of None \<Rightarrow> [] | Some s \<Rightarrow> s)),
      Sleep 10]"


section \<open>Concrete inputs\<close>

text \<open>An image of five bands over a grid of positions; the pixel at \<open>(0, 0)\<close> is flagged
  as cloud.\<close>

definition example_image :: "(nat \<times> nat, int) image" where
  "example_image =
     [(''B2'', \<lambda>p. \<lparr>val = 10000, valid = True\<rparr>),
      (''B3'', \<lambda>p. \<lparr>val = 0, valid = True\<rparr>),
      (''B4'', \<lambda>p. \<lparr>val = 1500, valid = True\<rparr>),
      (''B8'', \<lambda>p. \<lparr>val = 2500, valid = True\<rparr>),
      (''QA60'', \<lambda>p. \<lparr>val = (if p = (0, 0) then 1024 else 0), valid = True\<rparr>)]"

definition example_masked :: "(nat \<times> nat, real) image" where
  "example_masked =
     ee_divide (ee_updateMask example_image
        (mask_band (\<lambda>p. \<lparr>val = (if p = (0, 0) then 1024 else 0), valid = True\<rparr>))) 10000"

definition example_selected :: "(nat \<times> nat, real) image" where
  "example_selected =
     [(''B4'', snd (example_masked ! 2)), (''B3'', snd (example_masked ! 1)),
      (''B2'', snd (example_masked ! 0)), (''B8'', snd (example_masked ! 3))]"

text \<open>A platform that asks for authentication once, whose job is active for two polls and
  then has failed; one whose job never leaves the active state; one that always refuses
  the credentials.\<close>

definition ee_two_polls :: platform where
  "ee_two_polls =
     \<lparr>Initialize = (\<lambda>k. if k = 0 then Some EEException else None),
      Authenticate = None,
      start = None,
      task_id = ''T1'',
      active = (\<lambda>k. Inr (k < 2)),
      status = (\<lambda>k. Inr (if k < 2 then [''state'' \<mapsto> ''RUNNING'']
                          else [''state'' \<mapsto> ''FAILED'', ''error_message'' \<mapsto> ''boom'']))\<rparr>"


definition ee_no_credentials :: platform where
  "ee_no_credentials =
     \<lparr>Initialize = (\<lambda>k. Some EEException),
      Authenticate = None,
      start = None,
      task_id = ''T3'',
      active = (\<lambda>k. Inr False),
      status = (\<lambda>k. Inr [''state'' \<mapsto> ''COMPLETED''])\<rparr>"

text \<open>A platform whose job has failed at the first poll and whose status carries no
  \<^verbatim>\<open>error_message\<close> entry.\<close>

definition ee_failed_silent :: platform where
  "ee_failed_silent =
     \<lparr>Initialize = (\<lambda>k. None),
      Authenticate = None,
      start = None,
      task_id = ''T4'',
      active = (\<lambda>k. Inr False),
      status = (\<lambda>k. Inr [''state'' \<mapsto> ''FAILED''])\<rparr>"

section \<open>Properties of the cloud mask\<close>

lemma and_cloudBitMask: "q AND cloudBitMask = 0 \<longleftrightarrow> \<not> bit q 10"
  by (simp only: cloudBitMask_def bit_iff_and_push_bit_not_eq_0 [of q 10] not_not)

lemma and_cirrusBitMask: "q AND cirrusBitMask = 0 \<longleftrightarrow> \<not> bit q 11"
  by (simp only: cirrusBitMask_def bit_iff_and_push_bit_not_eq_0 [of q 11] not_not)

lemma val_mask:
  "val (mask_band qa p) = (if \<not> bit (val (qa p)) 10 \<and> \<not> bit (val (qa p)) 11 then 1 else 0)"
  by (simp add: mask_band_def ee_And_def ee_eq_def ee_bitwiseAnd_def
      and_cloudBitMask and_cirrusBitMask)

lemma valid_mask: "valid (mask_band qa p) = valid (qa p)"
  by (simp add: mask_band_def ee_And_def ee_eq_def ee_bitwiseAnd_def)

text \<open>
  Claim C1. For every quality value \<open>q\<close> the mask keeps the pixel exactly when bit 10
  (cloud) and bit 11 (cirrus) of \<open>q\<close> are both zero; it keeps 0 and 512 and drops 1024,
  2048 and 3072.
\<close>

theorem mask_keeps_iff_bits_clear:
  "(mask_keeps q \<longleftrightarrow> \<not> bit q 10 \<and> \<not> bit q 11)
   \<and> mask_keeps 0 \<and> \<not> mask_keeps 1024 \<and> \<not> mask_keeps 2048 \<and> \<not> mask_keeps 3072
   \<and> mask_keeps 512"
proof -
  note unfold = mask_keeps_def mask_band_def ee_And_def ee_eq_def ee_bitwiseAnd_def
    cloudBitMask_def cirrusBitMask_def
  have general: "mask_keeps q \<longleftrightarrow> \<not> bit q 10 \<and> \<not> bit q 11"
    by (simp add: mask_keeps_def val_mask)
  have "mask_keeps 0"
    by (simp add: unfold)
  moreover have "\<not> mask_keeps 1024"
    by (simp add: unfold)
  moreover have "\<not> mask_keeps 2048"
    by (simp add: unfold)
  moreover have "\<not> mask_keeps 3072"
    by (simp add: unfold)
  moreover have "mask_keeps 512"
    by (simp add: unfold)
  ultimately show ?thesis
    using general by blast
qed

section \<open>Properties of the image operations\<close>

lemma length_ee_updateMask: "length (ee_updateMask img m) = length img"
  by (simp add: ee_updateMask_def)

lemma length_ee_divide: "length (ee_divide img c) = length img"
  by (simp add: ee_divide_def)

lemma names_ee_updateMask: "map fst (ee_updateMask img m) = map fst img"
  by (simp add: ee_updateMask_def case_prod_beta comp_def)

lemma names_ee_divide: "map fst (ee_divide img c) = map fst img"
  by (simp add: ee_divide_def case_prod_beta comp_def)

lemma nth_ee_updateMask:
  "i < length img \<Longrightarrow>
   snd (ee_updateMask img m ! i) p =
     (snd (img ! i) p)\<lparr>valid := (valid (snd (img ! i) p) \<and> valid (m p) \<and> val (m p) \<noteq> 0)\<rparr>"
  by (simp add: ee_updateMask_def case_prod_beta)

lemma nth_ee_divide:
  "i < length img \<Longrightarrow>
   snd (ee_divide img c ! i) p =
     \<lparr>val = (if c = 0 then 0 else real_of_int (val (snd (img ! i) p)) / real_of_int c),
      valid = valid (snd (img ! i) p)\<rparr>"
  by (simp add: ee_divide_def case_prod_beta)

lemma maskS2clouds_Inr:
  "maskS2clouds img = Inr out \<Longrightarrow>
   \<exists>qa. ee_select1 img ''QA60'' = Inr qa
      \<and> out = ee_divide (ee_updateMask img (mask_band qa)) 10000"
  by (auto simp: maskS2clouds_def split: sum.splits)

lemma ee_select1_Inr: "ee_select1 img name = Inr b \<longleftrightarrow> map_of img name = Some b"
  by (simp add: ee_select1_def split: option.splits)

lemma map_of_ee_updateMask:
  "map_of (ee_updateMask img m) name =
     map_option (\<lambda>b p. (b p)\<lparr>valid := (valid (b p) \<and> valid (m p) \<and> val (m p) \<noteq> 0)\<rparr>)
       (map_of img name)"
  by (simp add: ee_updateMask_def map_of_map)

lemma map_of_ee_divide:
  "map_of (ee_divide img c) name =
     map_option (\<lambda>b p. \<lparr>val = (if c = 0 then 0 else real_of_int (val (b p)) / real_of_int c),
                         valid = valid (b p)\<rparr>)
       (map_of img name)"
  by (simp add: ee_divide_def map_of_map)

lemma ee_select_names: "ee_select img names = Inr out \<Longrightarrow> map fst out = names"
  by (induction names arbitrary: out) (auto split: sum.splits)

lemma ee_select_bands:
  "ee_select img names = Inr out \<Longrightarrow> (name, b) \<in> set out \<Longrightarrow> ee_select1 img name = Inr b"
  by (induction names arbitrary: out) (auto split: sum.splits)

text \<open>
  Claim C3. The rescaling step of \<^verbatim>\<open>maskS2clouds\<close> is \<^verbatim>\<open>divide(10000)\<close> applied to the
  masked image: every pixel value is the original value divided by 10000, the validity
  of every pixel is that of the masked image, a value of 10000 becomes 1 and a value of
  0 becomes 0.
\<close>

theorem maskS2clouds_rescales:
  assumes "maskS2clouds img = Inr out"
  shows "\<exists>qa. ee_select1 img ''QA60'' = Inr qa
           \<and> out = ee_divide (ee_updateMask img (mask_band qa)) 10000
           \<and> length out = length img
           \<and> (\<forall>i<length img. \<forall>p.
                 valid (snd (out ! i) p) = valid (snd (ee_updateMask img (mask_band qa) ! i) p)
               \<and> val (snd (out ! i) p) = real_of_int (val (snd (img ! i) p)) / 10000
               \<and> (val (snd (img ! i) p) = 10000 \<longrightarrow> val (snd (out ! i) p) = 1)
               \<and> (val (snd (img ! i) p) = 0 \<longrightarrow> val (snd (out ! i) p) = 0))"
proof -
  from assms obtain qa where qa: "ee_select1 img ''QA60'' = Inr qa"
    and out: "out = ee_divide (ee_updateMask img (mask_band qa)) 10000"
    using maskS2clouds_Inr by blast
  have len: "length out = length img"
    by (simp add: out length_ee_divide length_ee_updateMask)
  have px: "valid (snd (out ! i) p) = valid (snd (ee_updateMask img (mask_band qa) ! i) p)
          \<and> val (snd (out ! i) p) = real_of_int (val (snd (img ! i) p)) / 10000
          \<and> (val (snd (img ! i) p) = 10000 \<longrightarrow> val (snd (out ! i) p) = 1)
          \<and> (val (snd (img ! i) p) = 0 \<longrightarrow> val (snd (out ! i) p) = 0)"
    if "i < length img" for i p
    using that by (simp add: out nth_ee_divide nth_ee_updateMask length_ee_updateMask)
  show ?thesis
    using qa out len px by blast
qed

theorem maskS2clouds_rescales_witness:
  "maskS2clouds example_image = Inr example_masked
   \<and> val (snd (example_image ! 0) (0, 1)) = 10000 \<and> val (snd (example_masked ! 0) (0, 1)) = 1
   \<and> val (snd (example_image ! 1) (0, 1)) = 0 \<and> val (snd (example_masked ! 1) (0, 1)) = 0"
proof -
  have run: "maskS2clouds example_image = Inr example_masked"
    by (simp add: maskS2clouds_def ee_select1_def example_image_def example_masked_def)
  have len: "0 < length example_image" "1 < length example_image"
    by (simp_all add: example_image_def)
  have v0: "val (snd (example_image ! 0) (0, 1)) = 10000"
    and v1: "val (snd (example_image ! 1) (0, 1)) = 0"
    by (simp_all add: example_image_def)
  from maskS2clouds_rescales [OF run] len v0 v1
  have "val (snd (example_masked ! 0) (0, 1)) = 1 \<and> val (snd (example_masked ! 1) (0, 1)) = 0"
    by blast
  with run v0 v1 show ?thesis by blast
qed

text \<open>
  Claim C9. \<^verbatim>\<open>maskS2clouds\<close> keeps every band of the image and divides each of them by
  10000, the band QA60 included; it is the selection of \<^verbatim>\<open>bands\<close> that follows which
  leaves exactly B4, B3, B2, B8, in that order, each the band of that name, and no QA60.
\<close>

theorem maskS2clouds_divides_all_bands:
  assumes "maskS2clouds img = Inr masked"
  shows "map fst masked = map fst img
       \<and> (\<forall>i<length img. \<forall>p.
             val (snd (masked ! i) p) = real_of_int (val (snd (img ! i) p)) / 10000)
       \<and> (\<exists>qa qa'. ee_select1 img ''QA60'' = Inr qa \<and> ee_select1 masked ''QA60'' = Inr qa'
             \<and> (\<forall>p. val (qa' p) = real_of_int (val (qa p)) / 10000))
       \<and> s2_image img = ee_select masked bands
       \<and> (\<forall>out. ee_select masked bands = Inr out \<longrightarrow>
             map fst out = [''B4'', ''B3'', ''B2'', ''B8''] \<and> ''QA60'' \<notin> set (map fst out)
           \<and> (\<forall>(name, b) \<in> set out. ee_select1 masked name = Inr b))"
proof -
  from assms have s2: "s2_image img = ee_select masked bands"
    by (simp add: s2_image_def)
  from assms obtain qa where qa: "ee_select1 img ''QA60'' = Inr qa"
    and masked: "masked = ee_divide (ee_updateMask img (mask_band qa)) 10000"
    using maskS2clouds_Inr by blast
  have names: "map fst masked = map fst img"
    by (simp add: masked names_ee_divide names_ee_updateMask)
  have vals: "val (snd (masked ! i) p) = real_of_int (val (snd (img ! i) p)) / 10000"
    if "i < length img" for i p
    using that by (simp add: masked nth_ee_divide nth_ee_updateMask length_ee_updateMask)
  from qa have "map_of img ''QA60'' = Some qa"
    by (simp only: ee_select1_Inr)
  then obtain qa' where qa': "ee_select1 masked ''QA60'' = Inr qa'"
    and qa'_val: "\<And>p. val (qa' p) = real_of_int (val (qa p)) / 10000"
    by (simp add: masked ee_select1_Inr map_of_ee_divide map_of_ee_updateMask)
  have sel: "map fst out = [''B4'', ''B3'', ''B2'', ''B8''] \<and> ''QA60'' \<notin> set (map fst out)
           \<and> (\<forall>(name, b) \<in> set out. ee_select1 masked name = Inr b)"
    if "ee_select masked bands = Inr out" for out
  proof -
    from that have n: "map fst out = [''B4'', ''B3'', ''B2'', ''B8'']"
      using ee_select_names [of masked bands out] by (simp add: bands_def)
    moreover have "''QA60'' \<notin> set (map fst out)"
      by (simp only: n) simp
    moreover have "\<forall>(name, b) \<in> set out. ee_select1 masked name = Inr b"
      using that ee_select_bands by fastforce
    ultimately show ?thesis by blast
  qed
  show ?thesis
    using names vals qa qa' qa'_val s2 sel by blast
qed

theorem maskS2clouds_divides_all_bands_witness:
  "maskS2clouds example_image = Inr example_masked
   \<and> s2_image example_image = Inr example_selected
   \<and> map fst example_masked = [''B2'', ''B3'', ''B4'', ''B8'', ''QA60'']
   \<and> val (snd (example_masked ! 4) (0, 0)) = 1024 / 10000
   \<and> map fst example_selected = [''B4'', ''B3'', ''B2'', ''B8'']"
proof -
  have run: "maskS2clouds example_image = Inr example_masked"
    by (simp add: maskS2clouds_def ee_select1_def example_image_def example_masked_def)
  have sel: "ee_select example_masked bands = Inr example_selected"
    by (simp add: bands_def ee_select1_def example_selected_def example_masked_def
        example_image_def ee_divide_def ee_updateMask_def)
  have len: "4 < length example_image"
    by (simp add: example_image_def)
  note facts = maskS2clouds_divides_all_bands [OF run]
  from facts have "map fst example_masked = map fst example_image"
    by blast
  then have names: "map fst example_masked = [''B2'', ''B3'', ''B4'', ''B8'', ''QA60'']"
    by (simp add: example_image_def)
  from facts len
  have "val (snd (example_masked ! 4) (0, 0)) = real_of_int (val (snd (example_image ! 4) (0, 0))) / 10000"
    by blast
  then have qa: "val (snd (example_masked ! 4) (0, 0)) = 1024 / 10000"
    by (simp add: example_image_def)
  from facts sel have "map fst example_selected = [''B4'', ''B3'', ''B2'', ''B8'']"
    by blast
  moreover from facts sel have "s2_image example_image = Inr example_selected"
    by simp
  ultimately show ?thesis
    using run names qa by blast
qed

section \<open>Properties of the polling loop\<close>

lemma monitor_step:
  "still_running ee k \<Longrightarrow> monitor ee k tr = monitor ee (Suc k) (tr @ iteration ee k)"
  by (subst monitor.simps)
     (auto simp: still_running_def state_at_def iteration_def split: sum.splits)

lemma monitor_stop:
  "active ee k = Inr False \<Longrightarrow> monitor ee k tr = Some (tr @ [CallActive], Inr k)"
  by (subst monitor.simps) simp

lemma monitor_runs:
  "(\<forall>j<n. still_running ee (k + j)) \<Longrightarrow>
   monitor ee k tr = monitor ee (k + n) (tr @ concat (map (iteration ee) [k..<k + n]))"
proof (induction n arbitrary: k tr)
  case 0
  then show ?case by simp
next
  case (Suc n)
  from Suc.prems have first: "still_running ee k"
    by (metis add.right_neutral zero_less_Suc)
  from Suc.prems have rest: "\<forall>j<n. still_running ee (Suc k + j)"
    by (metis Suc_less_eq add_Suc_shift)
  have "monitor ee k tr = monitor ee (Suc k) (tr @ iteration ee k)"
    using first by (rule monitor_step)
  also have "\<dots> = monitor ee (Suc k + n)
        ((tr @ iteration ee k) @ concat (map (iteration ee) [Suc k..<Suc k + n]))"
    using rest by (rule Suc.IH)
  also have "\<dots> = monitor ee (k + Suc n) (tr @ concat (map (iteration ee) [k..<k + Suc n]))"
  proof -
    have "[k..<k + Suc n] = k # [Suc k..<Suc k + n]"
      by (simp add: upt_conv_Cons)
    then show ?thesis by simp
  qed
  finally show ?case .
qed









lemma monitor_from_start:
  assumes "\<forall>k<n. still_running ee k" and "active ee n = Inr False"
  shows "monitor ee 0 tr = Some (tr @ concat (map (iteration ee) [0..<n]) @ [CallActive], Inr n)"
proof -
  from assms(1) have "monitor ee 0 tr = monitor ee (0 + n) (tr @ concat (map (iteration ee) [0..<0 + n]))"
    by (intro monitor_runs) simp
  also have "\<dots> = Some ((tr @ concat (map (iteration ee) [0..<n])) @ [CallActive], Inr n)"
    using assms(2) by (simp add: monitor_stop)
  finally show ?thesis by simp
qed

lemma main_after_loop:
  assumes "authenticate_and_initialize ee = (t1, None)" and "start ee = None"
    and "\<forall>k<n. still_running ee k" and "active ee n = Inr False"
    and "status ee n = Inr final_status"
  shows "main ee =
     Some (t1 @ [Print ''Image collection filtered and median composite created.'',
                 CallStart, Print (''Monitoring task: '' @ task_id ee)]
              @ concat (map (iteration ee) [0..<n]) @ [CallActive, CallStatus]
              @ fst (report final_status),
           case snd (report final_status) of None \<Rightarrow> Exit | Some e \<Rightarrow> Uncaught e)"
proof -
  have "monitor ee 0 (t1 @ [Print ''Image collection filtered and median composite created.'',
                 CallStart, Print (''Monitoring task: '' @ task_id ee)])
      = Some ((t1 @ [Print ''Image collection filtered and median composite created.'',
                 CallStart, Print (''Monitoring task: '' @ task_id ee)])
              @ concat (map (iteration ee) [0..<n]) @ [CallActive], Inr n)"
    using assms(3,4) by (rule monitor_from_start)
  then show ?thesis
    using assms(1,2,5)
    by (cases "report final_status") (auto simp: main_def split: option.splits)
qed




section \<open>Properties of the final report\<close>

lemma report_failed_without_message:
  "final_status ''state'' = Some ''FAILED'' \<Longrightarrow> final_status ''error_message'' = None \<Longrightarrow>
   report final_status = ([Print ''Export FAILED.''], Some (KeyError ''error_message''))"
  by (simp add: report_def)

lemma report_failed:
  "final_status ''state'' = Some ''FAILED'' \<Longrightarrow> final_status ''error_message'' = Some m \<Longrightarrow>
   report final_status = ([Print ''Export FAILED.'', Print (''Error message: '' @ m)], None)"
  by (simp add: report_def)

lemma report_says_failed_iff:
  "Print ''Export FAILED.'' \<in> set (fst (report final_status))
   \<longleftrightarrow> final_status ''state'' = Some ''FAILED''"
  by (auto simp: report_def split: option.splits if_splits)

text \<open>
  Claim C8, as the code has it. \<^verbatim>\<open>Export FAILED.\<close> is printed exactly when the state of
  the final status is FAILED: no other state is reported as a failure. When that status
  carries an \<^verbatim>\<open>error_message\<close> entry, the message is printed next and the script ends
  normally. The lookup of line 122 is unguarded: when the entry is absent, it raises
  \<^verbatim>\<open>KeyError\<close> after \<^verbatim>\<open>Export FAILED.\<close> was printed, and the script ends with that
  exception uncaught.
\<close>

theorem failed_report_depends_on_message:
  "(Print ''Export FAILED.'' \<in> set (fst (report final_status))
        \<longleftrightarrow> final_status ''state'' = Some ''FAILED'')
   \<and> (final_status ''state'' = Some ''FAILED'' \<and> final_status ''error_message'' = Some m \<longrightarrow>
        report final_status = ([Print ''Export FAILED.'', Print (''Error message: '' @ m)], None))
   \<and> (final_status ''state'' = Some ''FAILED'' \<and> final_status ''error_message'' = None \<longrightarrow>
        report final_status = ([Print ''Export FAILED.''], Some (KeyError ''error_message'')))
   \<and> (\<forall>t1 n. authenticate_and_initialize ee = (t1, None) \<and> start ee = None
         \<and> (\<forall>k<n. still_running ee k) \<and> active ee n = Inr False
         \<and> status ee n = Inr final_status
         \<and> final_status ''state'' = Some ''FAILED'' \<longrightarrow>
         main ee =
           Some (t1 @ [Print ''Image collection filtered and median composite created.'',
                       CallStart, Print (''Monitoring task: '' @ task_id ee)]
                    @ concat (map (iteration ee) [0..<n])
                    @ [CallActive, CallStatus, Print ''Export FAILED.'']
                    @ (case final_status ''error_message'' of
                         None \<Rightarrow> []
                       | Some msg \<Rightarrow> [Print (''Error message: '' @ msg)]),
                 case final_status ''error_message'' of
                   None \<Rightarrow> Uncaught (KeyError ''error_message'')
                 | Some msg \<Rightarrow> Exit))"
proof -
  have at_main: "main ee =
           Some (t1 @ [Print ''Image collection filtered and median composite created.'',
                       CallStart, Print (''Monitoring task: '' @ task_id ee)]
                    @ concat (map (iteration ee) [0..<n])
                    @ [CallActive, CallStatus, Print ''Export FAILED.'']
                    @ (case final_status ''error_message'' of
                         None \<Rightarrow> []
                       | Some msg \<Rightarrow> [Print (''Error message: '' @ msg)]),
                 case final_status ''error_message'' of
                   None \<Rightarrow> Uncaught (KeyError ''error_message'')
                 | Some msg \<Rightarrow> Exit)"
    if "authenticate_and_initialize ee = (t1, None)" "start ee = None"
      "\<forall>k<n. still_running ee k" "active ee n = Inr False" "status ee n = Inr final_status"
      "final_status ''state'' = Some ''FAILED''"
    for t1 n
  proof (cases "final_status ''error_message''")
    case None
    with that(6) have "report final_status =
        ([Print ''Export FAILED.''], Some (KeyError ''error_message''))"
      by (simp add: report_failed_without_message)
    with None main_after_loop [OF that(1-5)]
    show ?thesis by simp
  next
    case (Some msg)
    with that(6) have "report final_status =
        ([Print ''Export FAILED.'', Print (''Error message: '' @ msg)], None)"
      by (simp add: report_failed)
    with Some main_after_loop [OF that(1-5)]
    show ?thesis by simp
  qed
  show ?thesis
    using at_main report_failed report_failed_without_message report_says_failed_iff
    by blast
qed

theorem failed_report_depends_on_message_witness:
  "status ee_two_polls 2 = Inr [''state'' \<mapsto> ''FAILED'', ''error_message'' \<mapsto> ''boom'']
   \<and> active ee_two_polls 2 = Inr False
   \<and> report [''state'' \<mapsto> ''FAILED'', ''error_message'' \<mapsto> ''boom'']
       = ([Print ''Export FAILED.'', Print ''Error message: boom''], None)
   \<and> report [''state'' \<mapsto> ''FAILED'']
       = ([Print ''Export FAILED.''], Some (KeyError ''error_message''))
   \<and> main ee_two_polls =
       Some ([CallInitialize, Print ''Authentication needed. Running ee.Authenticate()...'',
              CallAuthenticate, CallInitialize,
              Print ''Google Earth Engine initialized successfully after authentication.'',
              Print ''Image collection filtered and median composite created.'',
              CallStart, Print ''Monitoring task: T1'',
              CallActive, CallStatus, Print ''Task status: RUNNING'', Sleep 10,
              CallActive, CallStatus, Print ''Task status: RUNNING'', Sleep 10,
              CallActive, CallStatus, Print ''Export FAILED.'', Print ''Error message: boom''],
             Exit)"
proof -
  let ?st = "[''state'' \<mapsto> ''FAILED'', ''error_message'' \<mapsto> ''boom'']"
  let ?silent = "[''state'' \<mapsto> ''FAILED'']"
  let ?t1 = "[CallInitialize, Print ''Authentication needed. Running ee.Authenticate()...'',
              CallAuthenticate, CallInitialize,
              Print ''Google Earth Engine initialized successfully after authentication.'']"
  have init: "authenticate_and_initialize ee_two_polls = (?t1, None)"
    by (simp add: authenticate_and_initialize_def ee_two_polls_def)
  have st: "start ee_two_polls = None"
    by (simp add: ee_two_polls_def)
  have run: "\<forall>k<2. still_running ee_two_polls k"
    by (simp add: still_running_def state_at_def ee_two_polls_def)
  have stop: "active ee_two_polls 2 = Inr False"
    by (simp add: ee_two_polls_def)
  have final: "status ee_two_polls 2 = Inr ?st"
    by (simp add: ee_two_polls_def)
  have f: "?st ''state'' = Some ''FAILED''" and m: "?st ''error_message'' = Some ''boom''"
    by simp_all
  have f': "?silent ''state'' = Some ''FAILED''" and m': "?silent ''error_message'' = None"
    by simp_all
  have tr: "concat (map (iteration ee_two_polls) [0..<2]) =
      [CallActive, CallStatus, Print ''Task status: RUNNING'', Sleep 10,
       CallActive, CallStatus, Print ''Task status: RUNNING'', Sleep 10]"
  proof -
    have "[0..<2] = [0, Suc 0]"
      by (simp add: numeral_2_eq_2)
    then show ?thesis
      by (simp add: iteration_def state_at_def ee_two_polls_def)
  qed
  have id: "task_id ee_two_polls = ''T1''"
    by (simp add: ee_two_polls_def)
  note inst = failed_report_depends_on_message [of ?st "''boom''" ee_two_polls]
  note inst' = failed_report_depends_on_message [of ?silent "''boom''" ee_two_polls]
  from inst f m have rep: "report ?st = ([Print ''Export FAILED.'', Print ''Error message: boom''], None)"
    by simp
  from inst' f' m'
  have rep': "report ?silent = ([Print ''Export FAILED.''], Some (KeyError ''error_message''))"
    by blast
  from inst init st run stop final f
  have "main ee_two_polls =
           Some (?t1 @ [Print ''Image collection filtered and median composite created.'',
                       CallStart, Print (''Monitoring task: '' @ task_id ee_two_polls)]
                    @ concat (map (iteration ee_two_polls) [0..<2])
                    @ [CallActive, CallStatus, Print ''Export FAILED.'']
                    @ (case ?st ''error_message'' of
                         None \<Rightarrow> []
                       | Some msg \<Rightarrow> [Print (''Error message: '' @ msg)]),
                 case ?st ''error_message'' of
                   None \<Rightarrow> Uncaught (KeyError ''error_message'')
                 | Some msg \<Rightarrow> Exit)"
    by blast
  then show ?thesis
    using final stop rep rep' by (simp add: tr id)
qed

text \<open>
  The unconditional reading of C8 fails: a job that has failed and whose status has no
  \<^verbatim>\<open>error_message\<close> entry ends the script abnormally.
\<close>

theorem failed_without_message_counterexample:
  "active ee_failed_silent 0 = Inr False
   \<and> state_at ee_failed_silent 0 = Some ''FAILED''
   \<and> main ee_failed_silent =
       Some ([CallInitialize, Print ''Google Earth Engine initialized successfully.'',
              Print ''Image collection filtered and median composite created.'',
              CallStart, Print ''Monitoring task: T4'',
              CallActive, CallStatus, Print ''Export FAILED.''],
             Uncaught (KeyError ''error_message''))"
  by (simp add: main_def authenticate_and_initialize_def report_def monitor.simps
      state_at_def ee_failed_silent_def)

section \<open>Properties of the initialization\<close>

text \<open>
  Claim C6. When the first \<^verbatim>\<open>ee.Initialize\<close> raises \<^verbatim>\<open>EEException\<close> and
  \<^verbatim>\<open>ee.Authenticate\<close> returns, the script has caught the exception, run the
  authentication flow once and called \<^verbatim>\<open>ee.Initialize\<close> a second and last time; an
  exception of that second call, whatever it is, ends the script uncaught.
\<close>

theorem auth_failure_retried_once:
  assumes "Initialize ee 0 = Some EEException" and "Authenticate ee = None"
  shows "fst (authenticate_and_initialize ee) =
           [CallInitialize, Print ''Authentication needed. Running ee.Authenticate()...'',
            CallAuthenticate, CallInitialize]
           @ (case Initialize ee 1 of
                None \<Rightarrow> [Print ''Google Earth Engine initialized successfully after authentication.'']
              | Some e \<Rightarrow> [])
       \<and> snd (authenticate_and_initialize ee) = Initialize ee 1
       \<and> count_list (fst (authenticate_and_initialize ee)) CallInitialize = 2
       \<and> count_list (fst (authenticate_and_initialize ee)) CallAuthenticate = 1
       \<and> (\<forall>e. Initialize ee 1 = Some e \<longrightarrow>
             main ee =
               Some ([CallInitialize, Print ''Authentication needed. Running ee.Authenticate()...'',
                      CallAuthenticate, CallInitialize], Uncaught e))"
proof (cases "Initialize ee 1")
  case None
  with assms show ?thesis
    by (simp add: authenticate_and_initialize_def)
next
  case (Some e)
  with assms have "authenticate_and_initialize ee =
      ([CallInitialize, Print ''Authentication needed. Running ee.Authenticate()...'',
        CallAuthenticate, CallInitialize], Some e)"
    by (simp add: authenticate_and_initialize_def)
  with Some show ?thesis
    by (simp add: main_def)
qed

theorem auth_failure_retried_once_witness:
  "Initialize ee_no_credentials 0 = Some EEException
   \<and> Authenticate ee_no_credentials = None
   \<and> Initialize ee_no_credentials 1 = Some EEException
   \<and> main ee_no_credentials =
       Some ([CallInitialize, Print ''Authentication needed. Running ee.Authenticate()...'',
              CallAuthenticate, CallInitialize], Uncaught EEException)"
proof -
  have h: "Initialize ee_no_credentials 0 = Some EEException"
    "Authenticate ee_no_credentials = None"
    "Initialize ee_no_credentials 1 = Some EEException"
    by (simp_all add: ee_no_credentials_def)
  from auth_failure_retried_once [OF h(1,2)] h(3)
  have "main ee_no_credentials =
       Some ([CallInitialize, Print ''Authentication needed. Running ee.Authenticate()...'',
              CallAuthenticate, CallInitialize], Uncaught EEException)"
    by blast
  with h show ?thesis by blast
qed

end
